theory Spec2Isabelle
  imports Complex_Main "HOL-Library.Stream"
begin

section \<open>The engine wrapper of \<^verbatim>\<open>Engines/stockfish.cpp\<close>\<close>

text \<open>
  The file keeps three globals: the flag \<^verbatim>\<open>engine_initialized\<close>, the option map
  \<^verbatim>\<open>engine_options\<close> (a \<^verbatim>\<open>std::map<std::string, std::string>\<close>) and the generator
  \<^verbatim>\<open>rng\<close> (a \<^verbatim>\<open>std::mt19937\<close> seeded from \<^verbatim>\<open>std::random_device\<close>). They are the fields
  of the record \<open>engine\<close>; every operation takes the record and returns it updated.

  The generator is deterministic once seeded, so its state is the sequence of 32-bit
  outputs it is still going to produce: a stream of naturals, of which every draw
  consumes the head. The seed is not known, so theorems quantify over the stream.

  The function-local buffer \<^verbatim>\<open>result_move\<close> of \<^verbatim>\<open>stockfish_get_best_move\<close> only carries the
  returned characters; the model returns the string itself.

  A \<^verbatim>\<open>double\<close> is modelled as a real number. The material sum adds and subtracts small
  integers, which a \<^verbatim>\<open>double\<close> represents exactly (below \<open>2^53\<close>), so on that path the
  model is exact; the rounding of the random term is not modelled.
\<close>

record engine =
  engine_initialized :: bool
  engine_options :: "string \<rightharpoonup> string"
  rng :: "nat stream"

text \<open>The globals at program start: flag false, empty map, a generator seeded somehow.\<close>

definition engine_at_start :: "nat stream \<Rightarrow> engine" where
  "engine_at_start g =
     \<lparr>engine_initialized = False, engine_options = Map.empty, rng = g\<rparr>"

subsection \<open>Lifecycle and options\<close>

definition stockfish_init :: "engine \<Rightarrow> engine" where
  "stockfish_init s =
     (if engine_initialized s then s
      else s\<lparr>engine_options :=
                (engine_options s)(''Skill Level'' \<mapsto> ''20'', ''Threads'' \<mapsto> ''1'',
                                   ''Hash'' \<mapsto> ''128''),
              engine_initialized := True\<rparr>)"

definition stockfish_cleanup :: "engine \<Rightarrow> engine" where
  "stockfish_cleanup s = s\<lparr>engine_options := Map.empty, engine_initialized := False\<rparr>"

definition stockfish_set_option :: "string \<Rightarrow> string \<Rightarrow> engine \<Rightarrow> engine" where
  "stockfish_set_option name val s =
     (if \<not> engine_initialized s then s
      else s\<lparr>engine_options := (engine_options s)(name \<mapsto> val)\<rparr>)"

subsection \<open>The placeholder move generator\<close>

definition generate_legal_moves :: "string \<Rightarrow> string list" where
  "generate_legal_moves fen = [''e2e4'', ''d2d4'', ''g1f3'', ''b1c3'', ''f1c4'']"

subsection \<open>Library operations the file calls\<close>

text \<open>
  \<^verbatim>\<open>std::map::operator[]\<close>: the value stored under the key; a missing key is first
  inserted with the empty string.
\<close>

definition map_index :: "(string \<rightharpoonup> string) \<Rightarrow> string \<Rightarrow> string \<times> (string \<rightharpoonup> string)" where
  "map_index m k = (case m k of Some v \<Rightarrow> (v, m) | None \<Rightarrow> ('''', m(k \<mapsto> '''')))"

text \<open>
  \<^verbatim>\<open>std::stoi\<close> (base 10, through \<^verbatim>\<open>strtol\<close>): leading white space is skipped, one sign
  is accepted, then the longest run of decimal digits is read and the rest ignored.
  No digit throws \<^verbatim>\<open>std::invalid_argument\<close>; a value outside the 32-bit \<^verbatim>\<open>int\<close> throws
  \<^verbatim>\<open>std::out_of_range\<close>.
\<close>

datatype error = invalid_argument | out_of_range

definition isspace :: "char \<Rightarrow> bool" where
  "isspace c = (c = CHR '' '' \<or> c = CHR 0x09 \<or> c = CHR 0x0A \<or> c = CHR 0x0B
                \<or> c = CHR 0x0C \<or> c = CHR 0x0D)"

definition isdigit :: "char \<Rightarrow> bool" where
  "isdigit c = ((48::nat) \<le> of_char c \<and> of_char c \<le> (57::nat))"

fun digits_value :: "int \<Rightarrow> string \<Rightarrow> int" where
  "digits_value acc [] = acc"
| "digits_value acc (c # cs) = digits_value (10 * acc + (int (of_char c) - 48)) cs"

definition stoi :: "string \<Rightarrow> error + int" where
  "stoi str =
     (let t = dropWhile isspace str;
          neg = (t \<noteq> [] \<and> hd t = CHR ''-'');
          u = (if t \<noteq> [] \<and> (hd t = CHR ''-'' \<or> hd t = CHR ''+'') then tl t else t);
          ds = takeWhile isdigit u
      in if ds = [] then Inl invalid_argument
         else let v = (if neg then - digits_value 0 ds else digits_value 0 ds)
              in if v < - 2147483648 \<or> 2147483647 < v then Inl out_of_range else Inr v)"

text \<open>
  \<^verbatim>\<open>std::string::find\<close>: the first position where the pattern starts, or \<^verbatim>\<open>npos\<close>
  (here \<open>None\<close>); \<^verbatim>\<open>substr(0, n)\<close> with \<^verbatim>\<open>npos\<close> for \<open>n\<close> is the whole string.
\<close>

fun str_find :: "string \<Rightarrow> string \<Rightarrow> nat option" where
  "str_find pat [] = (if pat = [] then Some 0 else None)"
| "str_find pat (c # cs) =
     (if take (length pat) (c # cs) = pat then Some 0
      else map_option Suc (str_find pat cs))"

fun substr0 :: "string \<Rightarrow> nat option \<Rightarrow> string" where
  "substr0 str None = str"
| "substr0 str (Some n) = take n str"

text \<open>
  \<^verbatim>\<open>uniform_int_distribution<int>(0, hi)\<close> returns an integer of \<open>[0, hi]\<close> computed from
  the generator's next outputs. The C++ standard fixes the range of the result and
  nothing else: which outputs give which integer, and how many outputs a draw consumes
  (implementations reject and redraw), is left to the library. The model takes one
  output and reduces it modulo the size of the range; only the range of the result is
  relied on below.
\<close>

definition uniform_int_distribution :: "nat \<Rightarrow> nat stream \<Rightarrow> nat \<times> nat stream" where
  "uniform_int_distribution hi g = (shd g mod (hi + 1), stl g)"

text \<open>
  \<^verbatim>\<open>uniform_real_distribution<double>(a, b)\<close> scales \<^verbatim>\<open>std::generate_canonical<double, 53>\<close>
  into \<open>[a, b)\<close>. Over a generator of 32-bit outputs the standard has
  \<^verbatim>\<open>generate_canonical\<close> take two outputs \<open>g0\<close> and \<open>g1\<close> and return
  \<open>(g0 + g1 * 2^32) / 2^64\<close>.
\<close>

definition generate_canonical :: "nat stream \<Rightarrow> real \<times> nat stream" where
  "generate_canonical g =
     (real (shd g mod 4294967296 + (shd (stl g) mod 4294967296) * 4294967296)
        / 18446744073709551616,
      stl (stl g))"

definition uniform_real_distribution :: "real \<Rightarrow> real \<Rightarrow> nat stream \<Rightarrow> real \<times> nat stream" where
  "uniform_real_distribution a b g =
     (let (u, g') = generate_canonical g in (a + (b - a) * u, g'))"

text \<open>
  The subtraction of two 32-bit \<^verbatim>\<open>int\<close>s, with the wrap-around of the hardware written
  out (the C++ standard leaves the overflow undefined).
\<close>

definition int_sub :: "int \<Rightarrow> int \<Rightarrow> int" where
  "int_sub a b = (a - b + 2147483648) mod 4294967296 - 2147483648"

subsection \<open>Evaluation\<close>

text \<open>One round of the \<^verbatim>\<open>switch\<close> in the loop over the board part.\<close>

definition material_step :: "real \<Rightarrow> char \<Rightarrow> real" where
  "material_step evaluation c =
     (if c = CHR ''P'' then evaluation + 1
      else if c = CHR ''p'' then evaluation - 1
      else if c = CHR ''N'' \<or> c = CHR ''B'' then evaluation + 3
      else if c = CHR ''n'' \<or> c = CHR ''b'' then evaluation - 3
      else if c = CHR ''R'' then evaluation + 5
      else if c = CHR ''r'' then evaluation - 5
      else if c = CHR ''Q'' then evaluation + 9
      else if c = CHR ''q'' then evaluation - 9
      else evaluation)"

definition evaluate_position_simple :: "string \<Rightarrow> engine \<Rightarrow> (error + real) \<times> engine" where
  "evaluate_position_simple fen s =
     (let board_part = substr0 fen (str_find '' '' fen);
          evaluation = foldl material_step 0 board_part;
          (v, opts) = map_index (engine_options s) ''Skill Level'';
          s1 = s\<lparr>engine_options := opts\<rparr>
      in case stoi v of
           Inl e \<Rightarrow> (Inl e, s1)
         | Inr skill_level \<Rightarrow>
             if skill_level < 20 then
               (let (d, g) = uniform_real_distribution (- 0.5) 0.5 (rng s1)
                in (Inr (evaluation + d * real_of_int (int_sub 20 skill_level) / 10),
                    s1\<lparr>rng := g\<rparr>))
             else (Inr evaluation, s1))"

text \<open>The exported wrapper: initialise on demand, and turn any exception into \<open>0.0\<close>.\<close>

definition stockfish_evaluate_position :: "string \<Rightarrow> engine \<Rightarrow> real \<times> engine" where
  "stockfish_evaluate_position fen s =
     (let s0 = (if \<not> engine_initialized s then stockfish_init s else s)
      in case evaluate_position_simple fen s0 of
           (Inl e, s1) \<Rightarrow> (0, s1)
         | (Inr r, s1) \<Rightarrow> (r, s1))"

subsection \<open>Move selection\<close>

definition center_move :: "string \<Rightarrow> bool" where
  "center_move move =
     (str_find ''e4'' move \<noteq> None \<or> str_find ''d4'' move \<noteq> None
      \<or> str_find ''e5'' move \<noteq> None \<or> str_find ''d5'' move \<noteq> None)"

definition select_best_move :: "string list \<Rightarrow> string \<Rightarrow> engine \<Rightarrow> (error + string) \<times> engine" where
  "select_best_move moves fen s =
     (if moves = [] then (Inr '''', s)
      else
        let (v, opts) = map_index (engine_options s) ''Skill Level'';
            s1 = s\<lparr>engine_options := opts\<rparr>
        in case stoi v of
             Inl e \<Rightarrow> (Inl e, s1)
           | Inr skill_level \<Rightarrow>
               if skill_level \<le> 5 then
                 (let (i, g) = uniform_int_distribution (length moves - 1) (rng s1)
                  in (Inr (moves ! i), s1\<lparr>rng := g\<rparr>))
               else if skill_level \<le> 10 then
                 (case find center_move moves of
                    Some move \<Rightarrow> (Inr move, s1)
                  | None \<Rightarrow> (Inr (moves ! 0), s1))
               else (Inr (moves ! 0), s1))"

text \<open>
  The exported wrapper: initialise on demand; the empty string when no move was
  generated and when anything threw.
\<close>

definition stockfish_get_best_move :: "string \<Rightarrow> int \<Rightarrow> real \<Rightarrow> engine \<Rightarrow> string \<times> engine" where
  "stockfish_get_best_move fen depth time s =
     (let s0 = (if \<not> engine_initialized s then stockfish_init s else s);
          legal_moves = generate_legal_moves fen
      in if legal_moves = [] then ('''', s0)
         else case select_best_move legal_moves fen s0 of
                (Inl e, s1) \<Rightarrow> ('''', s1)
              | (Inr move, s1) \<Rightarrow> (move, s1))"

section \<open>Notions the properties are stated with\<close>

text \<open>
  The skill level a call of \<open>stockfish_get_best_move\<close> or \<open>stockfish_evaluate_position\<close>
  is going to read: the stored \<^verbatim>\<open>"Skill Level"\<close> of the state after the initialisation on
  demand, parsed by \<open>stoi\<close>.
\<close>

definition stored_skill_level :: "engine \<Rightarrow> error + int" where
  "stored_skill_level s =
     stoi (fst (map_index
       (engine_options (if \<not> engine_initialized s then stockfish_init s else s))
       ''Skill Level''))"

subsection \<open>Material, in the words of the specification\<close>

text \<open>
  The specification's evaluator: the material difference from White's side with the
  weights pawn 1, knight 3, bishop 3, rook 5, queen 9, king 0, over the first field of
  the FEN string, where an upper-case letter is a white piece and a lower-case letter a
  black one. These definitions follow the specification; \<open>material_step\<close> above follows
  the code, and the two are compared below.
\<close>

datatype piece_kind = Pawn | Knight | Bishop | Rook | Queen | King

datatype colour = White | Black

fun weight :: "piece_kind \<Rightarrow> int" where
  "weight Pawn = 1"
| "weight Knight = 3"
| "weight Bishop = 3"
| "weight Rook = 5"
| "weight Queen = 9"
| "weight King = 0"

definition piece_of_letter :: "char \<Rightarrow> (colour \<times> piece_kind) option" where
  "piece_of_letter c =
     (if c = CHR ''P'' then Some (White, Pawn) else if c = CHR ''N'' then Some (White, Knight)
      else if c = CHR ''B'' then Some (White, Bishop) else if c = CHR ''R'' then Some (White, Rook)
      else if c = CHR ''Q'' then Some (White, Queen) else if c = CHR ''K'' then Some (White, King)
      else if c = CHR ''p'' then Some (Black, Pawn) else if c = CHR ''n'' then Some (Black, Knight)
      else if c = CHR ''b'' then Some (Black, Bishop) else if c = CHR ''r'' then Some (Black, Rook)
      else if c = CHR ''q'' then Some (Black, Queen) else if c = CHR ''k'' then Some (Black, King)
      else None)"

definition letter_weight :: "colour \<Rightarrow> char \<Rightarrow> int" where
  "letter_weight col c =
     (case piece_of_letter c of
        Some (col', kind) \<Rightarrow> if col' = col then weight kind else 0
      | None \<Rightarrow> 0)"

definition material :: "colour \<Rightarrow> string \<Rightarrow> int" where
  "material col board = sum_list (map (letter_weight col) board)"

definition material_difference :: "string \<Rightarrow> int" where
  "material_difference board = material White board - material Black board"

definition board_field :: "string \<Rightarrow> string" where
  "board_field fen = takeWhile (\<lambda>c. c \<noteq> CHR '' '') fen"

subsection \<open>Positions, applying a move, and check\<close>

text \<open>
  Modelled from the spec: the position type of section 3, which the source does not have
  (it passes the FEN string around and never reads the board). A position is the
  placement of the pieces on the 8 by 8 grid, the side to move, the castling rights (the
  letters of \<^verbatim>\<open>KQkq\<close> still held), the en-passant target square and the two clocks. A
  square is (file, rank), both from 0 to 7, so \<^verbatim>\<open>e2\<close> is \<open>(4, 1)\<close>.
\<close>

type_synonym square = "int \<times> int"

type_synonym piece = "colour \<times> piece_kind"

record position =
  placement :: "(square \<times> piece) list"
  side_to_move :: colour
  castling_rights :: string
  en_passant :: "square option"
  halfmove_clock :: nat
  fullmove_number :: nat

definition piece_at :: "position \<Rightarrow> square \<Rightarrow> piece option" where
  "piece_at pos sq = map_of (placement pos) sq"

fun other :: "colour \<Rightarrow> colour" where
  "other White = Black"
| "other Black = White"

text \<open>
  Modelled from the spec: \<^verbatim>\<open>parse\<close> of section 4.1, absent from the source. It wants the
  six fields of a FEN string separated by single spaces: eight rank segments separated
  by \<^verbatim>\<open>/\<close>, each of eight files made of piece letters and the digits 1 to 8; \<^verbatim>\<open>w\<close> or
  \<^verbatim>\<open>b\<close> for the side to move; a castling token that is \<^verbatim>\<open>-\<close> or letters of \<^verbatim>\<open>KQkq\<close>, none
  twice; an en-passant token that is \<^verbatim>\<open>-\<close> or a square of the third or sixth rank; and
  two clocks written in decimal digits. Anything else is the specification's
  \<^verbatim>\<open>ParseError\<close>, here \<open>None\<close>. As the specification says, the number of pieces is not
  checked.
\<close>

definition parse_square :: "char \<Rightarrow> char \<Rightarrow> square option" where
  "parse_square fc rc =
     (let f = int (of_char fc) - 97; r = int (of_char rc) - 49
      in if 0 \<le> f \<and> f < 8 \<and> 0 \<le> r \<and> r < 8 then Some (f, r) else None)"

fun split_on :: "char \<Rightarrow> string \<Rightarrow> string list" where
  "split_on d [] = [[]]"
| "split_on d (c # cs) =
     (if c = d then [] # split_on d cs
      else (case split_on d cs of [] \<Rightarrow> [[c]] | w # ws \<Rightarrow> (c # w) # ws))"

fun parse_rank :: "string \<Rightarrow> int \<Rightarrow> int \<Rightarrow> (square \<times> piece) list option" where
  "parse_rank [] f r = (if f = 8 then Some [] else None)"
| "parse_rank (c # cs) f r =
     (if isdigit c then
        (if c = CHR ''0'' \<or> c = CHR ''9'' then None
         else parse_rank cs (f + (int (of_char c) - 48)) r)
      else (case piece_of_letter c of
              None \<Rightarrow> None
            | Some p \<Rightarrow> map_option ((#) ((f, r), p)) (parse_rank cs (f + 1) r)))"

fun parse_ranks :: "string list \<Rightarrow> int \<Rightarrow> (square \<times> piece) list option" where
  "parse_ranks [] r = Some []"
| "parse_ranks (w # ws) r =
     (case parse_rank w 0 r of
        None \<Rightarrow> None
      | Some ps \<Rightarrow> map_option ((@) ps) (parse_ranks ws (r - 1)))"

definition parse_side :: "string \<Rightarrow> colour option" where
  "parse_side t = (if t = ''w'' then Some White else if t = ''b'' then Some Black else None)"

definition parse_castling :: "string \<Rightarrow> string option" where
  "parse_castling t =
     (if t = ''-'' then Some []
      else if t \<noteq> [] \<and> list_all (\<lambda>c. c \<in> set ''KQkq'') t \<and> distinct t then Some t
      else None)"

definition parse_en_passant :: "string \<Rightarrow> square option option" where
  "parse_en_passant t =
     (if t = ''-'' then Some None
      else (case t of
              [fc, rc] \<Rightarrow>
                (case parse_square fc rc of
                   None \<Rightarrow> None
                 | Some sq \<Rightarrow> if snd sq = 2 \<or> snd sq = 5 then Some (Some sq) else None)
            | _ \<Rightarrow> None))"

definition parse_clock :: "string \<Rightarrow> nat option" where
  "parse_clock t =
     (if t \<noteq> [] \<and> list_all isdigit t then Some (nat (digits_value 0 t)) else None)"

definition parse_fen :: "string \<Rightarrow> position option" where
  "parse_fen fen =
     (case split_on CHR '' '' fen of
        [b, t, c, e, h, f] \<Rightarrow>
          (let ranks = split_on CHR ''/'' b in
           if length ranks \<noteq> 8 then None
           else (case (parse_ranks ranks 7, parse_side t, parse_castling c,
                       parse_en_passant e, parse_clock h, parse_clock f) of
                   (Some ps, Some col, Some cr, Some ep, Some hm, Some fm) \<Rightarrow>
                     Some \<lparr>placement = ps, side_to_move = col, castling_rights = cr,
                           en_passant = ep, halfmove_clock = hm, fullmove_number = fm\<rparr>
                 | _ \<Rightarrow> None))
      | _ \<Rightarrow> None)"

text \<open>
  Modelled from the spec: the piece movement of section 4.2 and \<^verbatim>\<open>isInCheck(color)\<close> of
  section 4.1, both absent from the source. A pawn attacks the two squares diagonally
  ahead of it, a knight and a king their fixed offsets, and a rook, bishop or queen
  along its lines as far as the first occupied square. A side is in check when a king
  of its colour stands on a square that a piece of the other colour attacks.
\<close>

definition empty_between :: "position \<Rightarrow> square \<Rightarrow> square \<Rightarrow> bool" where
  "empty_between pos a b =
     (let df = fst b - fst a; dr = snd b - snd a
      in list_all (\<lambda>i. piece_at pos (fst a + i * sgn df, snd a + i * sgn dr) = None)
           [1 .. max \<bar>df\<bar> \<bar>dr\<bar> - 1])"

definition attacks :: "position \<Rightarrow> square \<Rightarrow> piece \<Rightarrow> square \<Rightarrow> bool" where
  "attacks pos a p b =
     (let df = fst b - fst a; dr = snd b - snd a;
          straight = ((df = 0) \<noteq> (dr = 0));
          diagonal = (\<bar>df\<bar> = \<bar>dr\<bar> \<and> df \<noteq> 0)
      in case snd p of
           Pawn \<Rightarrow> \<bar>df\<bar> = 1 \<and> dr = (if fst p = White then 1 else - 1)
         | Knight \<Rightarrow> (\<bar>df\<bar> = 1 \<and> \<bar>dr\<bar> = 2) \<or> (\<bar>df\<bar> = 2 \<and> \<bar>dr\<bar> = 1)
         | King \<Rightarrow> max \<bar>df\<bar> \<bar>dr\<bar> = 1
         | Rook \<Rightarrow> straight \<and> empty_between pos a b
         | Bishop \<Rightarrow> diagonal \<and> empty_between pos a b
         | Queen \<Rightarrow> (straight \<or> diagonal) \<and> empty_between pos a b)"

definition attacked_by :: "position \<Rightarrow> colour \<Rightarrow> square \<Rightarrow> bool" where
  "attacked_by pos col sq =
     list_ex (\<lambda>(a, p). fst p = col \<and> attacks pos a p sq) (placement pos)"

definition is_in_check :: "position \<Rightarrow> colour \<Rightarrow> bool" where
  "is_in_check pos col =
     list_ex (\<lambda>(k, pk). pk = (col, King) \<and> attacked_by pos (other col) k) (placement pos)"

text \<open>
  Modelled from the spec: \<^verbatim>\<open>applyMove\<close> of section 4.1 on the move strings of section 6,
  \<^verbatim>\<open><origin><destination>[promotionLetter]\<close>; the source has neither. The specification
  defines \<^verbatim>\<open>applyMove\<close> on the moves of the position only, and its generator applies each
  move that obeys the movement rules before it tests the king (section 4.2). So
  \<open>apply_move\<close> gives a position for exactly those moves: the piece on the origin square
  belongs to the side to move, it moves as its kind moves (sliding pieces over empty
  squares only; a pawn by its push, its double push from the start rank, its diagonal
  capture, the en-passant capture, and with a promotion letter exactly on the last
  rank; castling with the right held, the squares between king and rook empty, and the
  king neither in check nor crossing or reaching an attacked square), and the
  destination does not hold a piece of the same side. Every other string gives \<open>None\<close>.
  Whether the move leaves the mover's own king in check is not tested here: that is the
  question the property asks.
\<close>

definition promotion_kind :: "char \<Rightarrow> piece_kind option" where
  "promotion_kind c =
     (if c = CHR ''q'' then Some Queen else if c = CHR ''r'' then Some Rook
      else if c = CHR ''b'' then Some Bishop else if c = CHR ''n'' then Some Knight
      else None)"

fun parse_move :: "string \<Rightarrow> (square \<times> square \<times> piece_kind option) option" where
  "parse_move [a, b, c, d] =
     (case (parse_square a b, parse_square c d) of
        (Some x, Some y) \<Rightarrow> Some (x, y, None)
      | _ \<Rightarrow> None)"
| "parse_move [a, b, c, d, e] =
     (case (parse_square a b, parse_square c d, promotion_kind e) of
        (Some x, Some y, Some k) \<Rightarrow> Some (x, y, Some k)
      | _ \<Rightarrow> None)"
| "parse_move _ = None"

fun pawn_dir :: "colour \<Rightarrow> int" where
  "pawn_dir White = 1"
| "pawn_dir Black = - 1"

fun start_rank :: "colour \<Rightarrow> int" where
  "start_rank White = 1"
| "start_rank Black = 6"

fun last_rank :: "colour \<Rightarrow> int" where
  "last_rank White = 7"
| "last_rank Black = 0"

fun home_rank :: "colour \<Rightarrow> int" where
  "home_rank White = 0"
| "home_rank Black = 7"

text \<open>The piece \<open>p\<close> goes from \<open>a\<close> to \<open>b\<close>, replacing what stood on \<open>b\<close>.\<close>

definition relocate ::
  "(square \<times> piece) list \<Rightarrow> square \<Rightarrow> square \<Rightarrow> piece \<Rightarrow> (square \<times> piece) list" where
  "relocate ps a b p = (b, p) # filter (\<lambda>(sq, q). sq \<noteq> a \<and> sq \<noteq> b) ps"

definition pawn_placement ::
  "position \<Rightarrow> colour \<Rightarrow> square \<Rightarrow> square \<Rightarrow> piece_kind option
     \<Rightarrow> (square \<times> piece) list option" where
  "pawn_placement pos col a b promo =
     (let df = fst b - fst a; dr = snd b - snd a; d = pawn_dir col; ps = placement pos;
          kind = (case promo of None \<Rightarrow> Pawn | Some k \<Rightarrow> k)
      in if (snd b = last_rank col) \<noteq> (promo \<noteq> None) \<or> promo = Some Pawn \<or> promo = Some King
         then None
         else if df = 0 \<and> dr = d \<and> piece_at pos b = None
         then Some (relocate ps a b (col, kind))
         else if df = 0 \<and> dr = 2 * d \<and> snd a = start_rank col
                 \<and> piece_at pos (fst a, snd a + d) = None \<and> piece_at pos b = None
         then Some (relocate ps a b (col, kind))
         else if \<bar>df\<bar> = 1 \<and> dr = d \<and> piece_at pos b \<noteq> None
         then Some (relocate ps a b (col, kind))
         else if \<bar>df\<bar> = 1 \<and> dr = d \<and> piece_at pos b = None \<and> en_passant pos = Some b
                 \<and> piece_at pos (fst b, snd a) = Some (other col, Pawn)
         then Some (filter (\<lambda>(sq, q). sq \<noteq> (fst b, snd a)) (relocate ps a b (col, kind)))
         else None)"

definition castle_placement ::
  "position \<Rightarrow> colour \<Rightarrow> square \<Rightarrow> square \<Rightarrow> (square \<times> piece) list option" where
  "castle_placement pos col a b =
     (let h = home_rank col;
          kingside = (b = (6, h));
          right = (if col = White then (if kingside then CHR ''K'' else CHR ''Q'')
                   else (if kingside then CHR ''k'' else CHR ''q''));
          rook_from = (if kingside then (7, h) else (0, h));
          rook_to = (if kingside then (5, h) else (3, h));
          between = (if kingside then [(5, h), (6, h)] else [(1, h), (2, h), (3, h)]);
          king_path = (if kingside then [(4, h), (5, h), (6, h)] else [(4, h), (3, h), (2, h)])
      in if a = (4, h) \<and> (b = (6, h) \<or> b = (2, h))
            \<and> right \<in> set (castling_rights pos)
            \<and> piece_at pos rook_from = Some (col, Rook)
            \<and> list_all (\<lambda>sq. piece_at pos sq = None) between
            \<and> list_all (\<lambda>sq. \<not> attacked_by pos (other col) sq) king_path
         then Some (relocate (relocate (placement pos) a b (col, King))
                      rook_from rook_to (col, Rook))
         else None)"

definition new_placement ::
  "position \<Rightarrow> square \<Rightarrow> square \<Rightarrow> piece_kind option \<Rightarrow> (square \<times> piece) list option" where
  "new_placement pos a b promo =
     (case piece_at pos a of
        None \<Rightarrow> None
      | Some (col, kind) \<Rightarrow>
          if col \<noteq> side_to_move pos then None
          else if (case piece_at pos b of Some (c, k) \<Rightarrow> c = col | None \<Rightarrow> False) then None
          else (case kind of
                  Pawn \<Rightarrow> pawn_placement pos col a b promo
                | King \<Rightarrow>
                    if promo \<noteq> None then None
                    else if attacks pos a (col, King) b
                    then Some (relocate (placement pos) a b (col, King))
                    else castle_placement pos col a b
                | _ \<Rightarrow>
                    if promo = None \<and> attacks pos a (col, kind) b
                    then Some (relocate (placement pos) a b (col, kind))
                    else None))"

text \<open>
  A castling right goes when its king or its rook leaves the home square, or the rook
  is taken there.
\<close>

definition right_squares :: "char \<Rightarrow> square list" where
  "right_squares c =
     (if c = CHR ''K'' then [(4, 0), (7, 0)] else if c = CHR ''Q'' then [(4, 0), (0, 0)]
      else if c = CHR ''k'' then [(4, 7), (7, 7)] else [(4, 7), (0, 7)])"

definition apply_move :: "position \<Rightarrow> string \<Rightarrow> position option" where
  "apply_move pos m =
     (case parse_move m of
        None \<Rightarrow> None
      | Some (a, b, promo) \<Rightarrow>
          (case new_placement pos a b promo of
             None \<Rightarrow> None
           | Some ps \<Rightarrow>
               (let pawn = (piece_at pos a = Some (side_to_move pos, Pawn)) in
                Some \<lparr>placement = ps,
                      side_to_move = other (side_to_move pos),
                      castling_rights =
                        filter (\<lambda>c. a \<notin> set (right_squares c) \<and> b \<notin> set (right_squares c))
                          (castling_rights pos),
                      en_passant =
                        (if pawn \<and> \<bar>snd b - snd a\<bar> = 2
                         then Some (fst a, (snd a + snd b) div 2) else None),
                      halfmove_clock =
                        (if pawn \<or> piece_at pos b \<noteq> None then 0 else halfmove_clock pos + 1),
                      fullmove_number =
                        (if side_to_move pos = Black then fullmove_number pos + 1
                         else fullmove_number pos)\<rparr>)))"

text \<open>
  Whether the move, applied to the position of the FEN string, leaves the king of the
  side that moved in check; \<open>None\<close> when the string cannot be read or the move is no move
  of the position.
\<close>

definition leaves_own_king_in_check :: "string \<Rightarrow> string \<Rightarrow> bool option" where
  "leaves_own_king_in_check fen m =
     (case parse_fen fen of
        None \<Rightarrow> None
      | Some pos \<Rightarrow>
          (case apply_move pos m of
             None \<Rightarrow> None
           | Some pos' \<Rightarrow> Some (is_in_check pos' (side_to_move pos))))"

text \<open>
  The position with one square emptied, and whether the king of the side to move is
  attacked once the origin square of the move is empty: so it is when that side is in
  check already, and when the piece on the origin square is pinned to its king.
\<close>

definition vacate :: "position \<Rightarrow> square \<Rightarrow> position" where
  "vacate pos a = pos\<lparr>placement := filter (\<lambda>(sq, q). sq \<noteq> a) (placement pos)\<rparr>"

definition king_exposed_without_origin :: "string \<Rightarrow> string \<Rightarrow> bool option" where
  "king_exposed_without_origin fen m =
     (case parse_fen fen of
        None \<Rightarrow> None
      | Some pos \<Rightarrow>
          (case parse_move m of
             None \<Rightarrow> None
           | Some (a, b, promo) \<Rightarrow> Some (is_in_check (vacate pos a) (side_to_move pos))))"

section \<open>Lemmas about the operations\<close>

lemma stoi_20: "stoi ''20'' = Inr 20"
  by (simp add: stoi_def isspace_def isdigit_def)

lemma stoi_0: "stoi ''0'' = Inr 0"
  by (simp add: stoi_def isspace_def isdigit_def)

lemma stoi_3: "stoi ''3'' = Inr 3"
  by (simp add: stoi_def isspace_def isdigit_def)

lemma init_on_demand:
  "(if \<not> engine_initialized s then stockfish_init s else s) = stockfish_init s"
  by (simp add: stockfish_init_def)

lemma initialized_init: "engine_initialized (stockfish_init s)"
  by (simp add: stockfish_init_def)

lemma stockfish_init_rng:
  "stockfish_init (s\<lparr>rng := g\<rparr>) = (stockfish_init s)\<lparr>rng := g\<rparr>"
  by (simp add: stockfish_init_def)

lemma stored_skill_level_init:
  "stored_skill_level s
     = stoi (fst (map_index (engine_options (stockfish_init s)) ''Skill Level''))"
  by (simp add: stored_skill_level_def init_on_demand)

lemma stored_skill_level_at_start: "stored_skill_level (engine_at_start g) = Inr 20"
  by (simp add: stored_skill_level_def engine_at_start_def stockfish_init_def map_index_def
        stoi_20)

lemma map_index_again:
  "map_index (snd (map_index m k)) k = (fst (map_index m k), snd (map_index m k))"
  by (simp add: map_index_def split: option.splits)

lemma generate_legal_moves_nonempty: "generate_legal_moves fen \<noteq> []"
  by (simp add: generate_legal_moves_def)

subsection \<open>Move selection\<close>

lemma select_best_move_initialized:
  "engine_initialized (snd (select_best_move moves fen s)) = engine_initialized s"
  by (simp add: select_best_move_def map_index_def uniform_int_distribution_def Let_def
        split: option.splits sum.splits prod.splits)

lemma select_best_move_member:
  assumes "moves \<noteq> []" and "fst (select_best_move moves fen s) = Inr m"
  shows "m \<in> set moves"
proof -
  from assms(1) have len: "0 < length moves" by simp
  then have idx: "\<And>x. x mod (length moves - 1 + 1) < length moves" by simp
  from assms show ?thesis
    using idx len
    by (auto simp: select_best_move_def uniform_int_distribution_def Let_def find_Some_iff
          split: prod.splits sum.splits if_splits option.splits)
qed

lemma select_best_move_fen:
  "select_best_move moves fen' s = select_best_move moves fen s"
  by (simp add: select_best_move_def)

lemma select_best_move_error:
  assumes "moves \<noteq> []"
  shows "isl (fst (select_best_move moves fen s))
           = isl (stoi (fst (map_index (engine_options s) ''Skill Level'')))"
  using assms
  by (auto simp: select_best_move_def uniform_int_distribution_def Let_def
        split: prod.splits sum.splits if_splits option.splits)

lemma get_best_move_unfold:
  "stockfish_get_best_move fen depth time s =
     (case fst (select_best_move (generate_legal_moves fen) fen (stockfish_init s)) of
        Inl e \<Rightarrow> '''' | Inr move \<Rightarrow> move,
      snd (select_best_move (generate_legal_moves fen) fen (stockfish_init s)))"
  by (simp add: stockfish_get_best_move_def init_on_demand generate_legal_moves_nonempty Let_def
        split: prod.splits sum.splits)

subsection \<open>Evaluation\<close>

lemma evaluate_position_simple_initialized:
  "engine_initialized (snd (evaluate_position_simple fen s)) = engine_initialized s"
  by (simp add: evaluate_position_simple_def map_index_def uniform_real_distribution_def
        Let_def split: option.splits sum.splits prod.splits)

lemma evaluate_position_unfold:
  "stockfish_evaluate_position fen s =
     (case fst (evaluate_position_simple fen (stockfish_init s)) of
        Inl e \<Rightarrow> 0 | Inr r \<Rightarrow> r,
      snd (evaluate_position_simple fen (stockfish_init s)))"
  by (simp add: stockfish_evaluate_position_def init_on_demand Let_def
        split: prod.splits sum.splits)

text \<open>The loop of the code adds up what the specification calls the material difference.\<close>

lemma material_step_weight:
  "material_step a c = a + real_of_int (letter_weight White c - letter_weight Black c)"
  by (simp add: material_step_def letter_weight_def piece_of_letter_def)

lemma foldl_material_step:
  "foldl material_step a board = a + real_of_int (material_difference board)"
proof (induction board arbitrary: a)
  case Nil
  show ?case by (simp add: material_difference_def material_def)
next
  case (Cons c cs)
  have "foldl material_step (material_step a c) cs
          = material_step a c + real_of_int (material_difference cs)"
    by (rule Cons.IH)
  then show ?case
    by (simp add: material_step_weight [of a c] material_difference_def material_def)
qed

text \<open>\<^verbatim>\<open>fen.substr(0, fen.find(' '))\<close> is the FEN string up to its first space.\<close>

lemma find_space_prefix: "substr0 fen (str_find '' '' fen) = board_field fen"
proof (induction fen)
  case Nil
  show ?case by (simp add: board_field_def)
next
  case (Cons c cs)
  show ?case
  proof (cases "c = CHR '' ''")
    case True
    then show ?thesis by (simp add: board_field_def)
  next
    case False
    with Cons show ?thesis
      by (cases "str_find '' '' cs") (simp_all add: board_field_def)
  qed
qed

lemma evaluate_position_simple_no_noise:
  assumes "\<forall>n. stoi (fst (map_index (engine_options s) ''Skill Level'')) = Inr n \<longrightarrow> 20 \<le> n"
  shows "evaluate_position_simple fen s =
           (case stoi (fst (map_index (engine_options s) ''Skill Level'')) of
              Inl e \<Rightarrow> Inl e
            | Inr n \<Rightarrow> Inr (real_of_int (material_difference (board_field fen))),
            s\<lparr>engine_options := snd (map_index (engine_options s) ''Skill Level'')\<rparr>)"
  using assms
  by (auto simp: evaluate_position_simple_def Let_def find_space_prefix foldl_material_step
        split: prod.splits sum.splits)

lemma evaluate_position_simple_skill_0:
  assumes "engine_options s ''Skill Level'' = Some ''0''"
  shows "evaluate_position_simple fen s =
           (Inr (real_of_int (material_difference (board_field fen))
                 + (- 0.5 + fst (generate_canonical (rng s))) * 2),
            s\<lparr>rng := stl (stl (rng s))\<rparr>)"
  using assms
  by (simp add: evaluate_position_simple_def map_index_def stoi_0
        uniform_real_distribution_def generate_canonical_def int_sub_def find_space_prefix
        foldl_material_step)

lemma starting_position_material:
  "material_difference
     (board_field ''rnbqkbnr/pppppppp/8/8/8/8/PPPPPPPP/RNBQKBNR w KQkq - 0 1'') = 0"
  by (simp add: material_difference_def material_def board_field_def letter_weight_def
        piece_of_letter_def)

subsection \<open>Moves and check\<close>

text \<open>
  Emptying squares can only add attacks: what attacks a square on a board attacks it on
  every board that is empty wherever the first one is.
\<close>

lemma empty_between_mono:
  assumes "\<And>s. piece_at p s = None \<Longrightarrow> piece_at q s = None"
    and "empty_between p x k"
  shows "empty_between q x k"
  using assms by (auto simp: empty_between_def Let_def list_all_iff)

lemma attacks_mono:
  assumes "\<And>s. piece_at p s = None \<Longrightarrow> piece_at q s = None"
    and "attacks p x px k"
  shows "attacks q x px k"
proof -
  have e: "empty_between p x k \<Longrightarrow> empty_between q x k"
    using assms(1) by (rule empty_between_mono)
  from assms(2) show ?thesis
    by (cases "snd px") (auto simp: attacks_def Let_def e)
qed

text \<open>
  A piece other than the king that goes from \<open>a\<close> to \<open>b\<close> puts its own king in check
  only if the king is attacked once \<open>a\<close> is empty: arriving on \<open>b\<close> takes a piece away or
  closes a line, and neither adds an attack.
\<close>

lemma relocate_no_new_check:
  assumes k: "kind \<noteq> King"
    and pl: "placement pos' = relocate (placement pos) a b (col, kind)"
    and chk: "is_in_check pos' col"
  shows "is_in_check (vacate pos a) col"
proof -
  let ?vac = "filter (\<lambda>(sq, q). sq \<noteq> a) (placement pos)"
  have vp: "placement (vacate pos a) = ?vac" by (simp add: vacate_def)
  have keep: "\<And>e. e \<in> set (placement pos') \<Longrightarrow> e \<noteq> (b, (col, kind)) \<Longrightarrow> e \<in> set ?vac"
    by (auto simp: pl relocate_def)
  have none: "\<And>s. piece_at pos' s = None \<Longrightarrow> piece_at (vacate pos a) s = None"
    by (auto simp: piece_at_def vp pl relocate_def map_of_eq_None_iff image_iff
          split: if_splits)
  from chk obtain sq where king: "(sq, (col, King)) \<in> set (placement pos')"
    and att: "attacked_by pos' (other col) sq"
    by (auto simp: is_in_check_def list_ex_iff)
  from att obtain x px where x: "(x, px) \<in> set (placement pos')"
    and xc: "fst px = other col" and xa: "attacks pos' x px sq"
    by (auto simp: attacked_by_def list_ex_iff)
  have kv: "(sq, (col, King)) \<in> set ?vac"
    using king k by (intro keep) auto
  have xv: "(x, px) \<in> set ?vac"
  proof (rule keep [OF x])
    have "other col \<noteq> col" by (cases col) simp_all
    with xc show "(x, px) \<noteq> (b, (col, kind))" by auto
  qed
  have "attacks (vacate pos a) x px sq"
    using none xa by (rule attacks_mono)
  with xv xc have "attacked_by (vacate pos a) (other col) sq"
    unfolding attacked_by_def list_ex_iff vp by (intro bexI [of _ "(x, px)"]) simp_all
  with kv show ?thesis
    unfolding is_in_check_def list_ex_iff vp by (intro bexI [of _ "(sq, (col, King))"]) simp_all
qed

text \<open>
  A move that is neither one step long nor two files along a rank is no move of a king,
  no castling and no en-passant capture: if it is a move of the position at all, one
  piece of the side to move, not the king, goes from \<open>a\<close> to \<open>b\<close>.
\<close>

lemma new_placement_relocates:
  assumes np: "new_placement pos a b promo = Some ps"
    and s1: "max \<bar>fst b - fst a\<bar> \<bar>snd b - snd a\<bar> \<noteq> 1"
    and s2: "\<not> (\<bar>fst b - fst a\<bar> = 2 \<and> snd b = snd a)"
  shows "\<exists>kind. kind \<noteq> King \<and> ps = relocate (placement pos) a b (side_to_move pos, kind)"
proof -
  from np obtain col kind where pa: "piece_at pos a = Some (col, kind)"
    by (auto simp: new_placement_def split: option.splits)
  with np have col: "col = side_to_move pos"
    by (auto simp: new_placement_def split: if_splits)
  show ?thesis
  proof (cases kind)
    case Pawn
    with np pa col have "pawn_placement pos col a b promo = Some ps"
      by (auto simp: new_placement_def split: if_splits option.splits)
    then show ?thesis
      using s1 col
      by (cases col; cases promo)
         (auto simp: pawn_placement_def Let_def split: if_splits)
  next
    case King
    with np pa col s1 have "castle_placement pos col a b = Some ps"
      by (auto simp: new_placement_def attacks_def Let_def split: if_splits option.splits)
    then have False
      using s2 by (auto simp: castle_placement_def Let_def split: if_splits)
    then show ?thesis ..
  next
    case Knight
    with np pa col show ?thesis
      by (auto simp: new_placement_def split: if_splits option.splits)
  next
    case Bishop
    with np pa col show ?thesis
      by (auto simp: new_placement_def split: if_splits option.splits)
  next
    case Rook
    with np pa col show ?thesis
      by (auto simp: new_placement_def split: if_splits option.splits)
  next
    case Queen
    with np pa col show ?thesis
      by (auto simp: new_placement_def split: if_splits option.splits)
  qed
qed

text \<open>Each of the five generated strings is a move string of that shape.\<close>

lemma generated_move_shape:
  assumes "m \<in> set (generate_legal_moves fen)"
  shows "\<exists>a b. parse_move m = Some (a, b, None)
           \<and> max \<bar>fst b - fst a\<bar> \<bar>snd b - snd a\<bar> \<noteq> 1
           \<and> \<not> (\<bar>fst b - fst a\<bar> = 2 \<and> snd b = snd a)"
  using assms
  by (auto simp: generate_legal_moves_def parse_square_def)


section \<open>The claims\<close>

subsection \<open>No legal move\<close>

text \<open>
  C1, as the code has it. The best-move operation has no separate value for "no move":
  \<open>select_best_move\<close> answers an empty move list with the empty string, and
  \<open>stockfish_get_best_move\<close> returns the empty string exactly when reading the skill
  level throws, because the placeholder generator never produces an empty list.
\<close>

theorem no_move_is_empty_string:
  "fst (select_best_move [] fen s) = Inr '''' \<and>
   (fst (stockfish_get_best_move fen depth time s) = '''') = isl (stored_skill_level s)"
proof
  show "fst (select_best_move [] fen s) = Inr ''''"
    by (simp add: select_best_move_def)
next
  let ?r = "select_best_move (generate_legal_moves fen) fen (stockfish_init s)"
  have e: "isl (fst ?r) = isl (stored_skill_level s)"
    using select_best_move_error [OF generate_legal_moves_nonempty, of fen fen "stockfish_init s"]
    by (simp add: stored_skill_level_init)
  show "(fst (stockfish_get_best_move fen depth time s) = '''') = isl (stored_skill_level s)"
  proof (cases "fst ?r")
    case (Inl x)
    then show ?thesis using e by (simp add: get_best_move_unfold)
  next
    case (Inr m)
    then have "m \<in> set (generate_legal_moves fen)"
      using select_best_move_member [OF generate_legal_moves_nonempty] by blast
    then have "m \<noteq> ''''" by (auto simp: generate_legal_moves_def)
    then show ?thesis using e Inr by (simp add: get_best_move_unfold)
  qed
qed

text \<open>
  The statement of C1 at work on an engine whose skill level was set to \<^verbatim>\<open>high\<close>: the
  empty string comes back.
\<close>

theorem no_move_is_empty_string_witness:
  "fst (stockfish_get_best_move ''8/8/8/8/8/8/8/8 w - - 0 1'' 4 1
          (stockfish_set_option ''Skill Level'' ''high''
             (stockfish_init (engine_at_start (sconst 0))))) = ''''"
proof -
  let ?s = "stockfish_set_option ''Skill Level'' ''high''
              (stockfish_init (engine_at_start (sconst 0)))"
  have "isl (stored_skill_level ?s)"
    by (simp add: stored_skill_level_def stockfish_set_option_def stockfish_init_def
          engine_at_start_def map_index_def stoi_def isspace_def isdigit_def)
  then show ?thesis
    using no_move_is_empty_string [of "''8/8/8/8/8/8/8/8 w - - 0 1''" ?s 4 1] by simp
qed

text \<open>
  C1 as it is worded fails. The position after 1. f3 e5 2. g4 Qh4 is checkmate: White has
  no legal move. On the empty move list that stands for it, \<open>select_best_move\<close> returns
  the empty string, the sentinel the claim rules out; and \<open>stockfish_get_best_move\<close>,
  whose generator does not look at the position, returns \<^verbatim>\<open>e2e4\<close> for it.
\<close>

theorem no_move_counterexample:
  "fst (select_best_move []
          ''rnb1kbnr/pppp1ppp/8/4p3/6Pq/5P2/PPPPP2P/RNBQKBNR w KQkq - 1 3''
          (stockfish_init (engine_at_start (sconst 0)))) = Inr '''' \<and>
   fst (stockfish_get_best_move
          ''rnb1kbnr/pppp1ppp/8/4p3/6Pq/5P2/PPPPP2P/RNBQKBNR w KQkq - 1 3'' 1 1
          (engine_at_start (sconst 0))) = ''e2e4''"
  by (simp add: select_best_move_def stockfish_get_best_move_def generate_legal_moves_def
        engine_at_start_def stockfish_init_def map_index_def stoi_20)

subsection \<open>Evaluation and randomness\<close>

text \<open>
  C2, as the code has it. When the skill level the call reads is 20 or more, as with the
  defaults, or cannot be read, no random term is drawn: a second call with the same FEN
  string returns the same score as the first, and so does a call from a state that
  differs in the generator only.
\<close>

theorem evaluation_deterministic_at_full_skill:
  assumes "\<forall>n. stored_skill_level s = Inr n \<longrightarrow> 20 \<le> n"
  shows "fst (stockfish_evaluate_position fen (snd (stockfish_evaluate_position fen s)))
           = fst (stockfish_evaluate_position fen s) \<and>
         fst (stockfish_evaluate_position fen (s\<lparr>rng := g\<rparr>))
           = fst (stockfish_evaluate_position fen s)"
proof
  let ?s0 = "stockfish_init s"
  let ?m = "map_index (engine_options ?s0) ''Skill Level''"
  let ?s1 = "?s0\<lparr>engine_options := snd ?m\<rparr>"
  from assms have h: "\<forall>n. stoi (fst ?m) = Inr n \<longrightarrow> 20 \<le> n"
    by (simp add: stored_skill_level_init)
  have first: "evaluate_position_simple fen ?s0 =
           (case stoi (fst ?m) of Inl e \<Rightarrow> Inl e
            | Inr n \<Rightarrow> Inr (real_of_int (material_difference (board_field fen))), ?s1)"
    by (rule evaluate_position_simple_no_noise [OF h])
  have s1: "stockfish_init ?s1 = ?s1"
    by (simp add: stockfish_init_def)
  have m1: "map_index (engine_options ?s1) ''Skill Level'' = (fst ?m, snd ?m)"
    by (simp add: map_index_again)
  from h m1
  have h1: "\<forall>n. stoi (fst (map_index (engine_options ?s1) ''Skill Level'')) = Inr n
              \<longrightarrow> 20 \<le> n"
    by simp
  have second: "fst (evaluate_position_simple fen ?s1) =
           (case stoi (fst ?m) of Inl e \<Rightarrow> Inl e
            | Inr n \<Rightarrow> Inr (real_of_int (material_difference (board_field fen))))"
    by (simp add: evaluate_position_simple_no_noise [OF h1] map_index_again)
  show "fst (stockfish_evaluate_position fen (snd (stockfish_evaluate_position fen s)))
           = fst (stockfish_evaluate_position fen s)"
    by (simp add: evaluate_position_unfold first s1 second)
next
  let ?s0 = "stockfish_init s"
  let ?m = "map_index (engine_options ?s0) ''Skill Level''"
  from assms have h: "\<forall>n. stoi (fst ?m) = Inr n \<longrightarrow> 20 \<le> n"
    by (simp add: stored_skill_level_init)
  then have hg: "\<forall>n. stoi (fst (map_index (engine_options (?s0\<lparr>rng := g\<rparr>)) ''Skill Level''))
                       = Inr n \<longrightarrow> 20 \<le> n"
    by simp
  show "fst (stockfish_evaluate_position fen (s\<lparr>rng := g\<rparr>))
           = fst (stockfish_evaluate_position fen s)"
    by (simp add: evaluate_position_unfold stockfish_init_rng
          evaluate_position_simple_no_noise [OF h] evaluate_position_simple_no_noise [OF hg])
qed

text \<open>The statement of C2 on the engine as it starts, where the skill level reads 20.\<close>

theorem evaluation_deterministic_at_full_skill_witness:
  "stored_skill_level (engine_at_start (sconst 0)) = Inr 20 \<and>
   fst (stockfish_evaluate_position ''4k3/8/8/8/8/8/4r3/4K3 w - - 0 1''
          (snd (stockfish_evaluate_position ''4k3/8/8/8/8/8/4r3/4K3 w - - 0 1''
                  (engine_at_start (sconst 0)))))
     = fst (stockfish_evaluate_position ''4k3/8/8/8/8/8/4r3/4K3 w - - 0 1''
              (engine_at_start (sconst 0))) \<and>
   fst (stockfish_evaluate_position ''4k3/8/8/8/8/8/4r3/4K3 w - - 0 1''
          ((engine_at_start (sconst 0))\<lparr>rng := sconst 7\<rparr>))
     = fst (stockfish_evaluate_position ''4k3/8/8/8/8/8/4r3/4K3 w - - 0 1''
              (engine_at_start (sconst 0)))"
proof -
  have h: "\<forall>n. stored_skill_level (engine_at_start (sconst 0)) = Inr n \<longrightarrow> 20 \<le> n"
    by (simp add: stored_skill_level_at_start)
  show ?thesis
    using evaluation_deterministic_at_full_skill
            [OF h, of "''4k3/8/8/8/8/8/4r3/4K3 w - - 0 1''" "sconst 7"]
    by (simp add: stored_skill_level_at_start)
qed

text \<open>
  C2 as it is worded fails. With the skill level set to 0, two calls in a row on the
  starting position return \<open>0\<close> and then \<open>2^-32\<close>, when the generator's next outputs
  are \<open>0\<close> and then \<open>2^31\<close> for ever: the same FEN string and the same options, two
  scores. The first call draws \<open>0\<close> and \<open>2^31\<close>, which make \<open>1/2\<close>, the middle of the
  range; the second draws \<open>2^31\<close> twice, which make \<open>1/2 + 2^-33\<close>.
\<close>

theorem evaluation_not_deterministic_counterexample:
  "fst (stockfish_evaluate_position ''rnbqkbnr/pppppppp/8/8/8/8/PPPPPPPP/RNBQKBNR w KQkq - 0 1''
          (stockfish_set_option ''Skill Level'' ''0''
             (stockfish_init (engine_at_start (0 ## sconst 2147483648))))) = 0 \<and>
   fst (stockfish_evaluate_position ''rnbqkbnr/pppppppp/8/8/8/8/PPPPPPPP/RNBQKBNR w KQkq - 0 1''
          (snd (stockfish_evaluate_position
                  ''rnbqkbnr/pppppppp/8/8/8/8/PPPPPPPP/RNBQKBNR w KQkq - 0 1''
                  (stockfish_set_option ''Skill Level'' ''0''
                     (stockfish_init (engine_at_start (0 ## sconst 2147483648)))))))
     = 1 / 4294967296"
proof -
  let ?fen = "''rnbqkbnr/pppppppp/8/8/8/8/PPPPPPPP/RNBQKBNR w KQkq - 0 1''"
  let ?s = "stockfish_set_option ''Skill Level'' ''0''
              (stockfish_init (engine_at_start (0 ## sconst 2147483648)))"
  let ?t = "?s\<lparr>rng := stl (stl (rng ?s))\<rparr>"
  have i: "engine_initialized ?s" and o: "engine_options ?s ''Skill Level'' = Some ''0''"
    and r: "rng ?s = 0 ## sconst 2147483648"
    by (simp_all add: stockfish_set_option_def stockfish_init_def engine_at_start_def)
  have ii: "stockfish_init ?s = ?s" using i by (simp add: stockfish_init_def)
  have it: "engine_initialized ?t" and ot: "engine_options ?t ''Skill Level'' = Some ''0''"
    using i o by simp_all
  have rt: "rng ?t = sconst 2147483648"
    by (simp add: r)
  have iit: "stockfish_init ?t = ?t" using it by (simp add: stockfish_init_def)
  have c1: "fst (generate_canonical (rng ?s)) = 1 / 2"
    by (simp add: generate_canonical_def r)
  have c2: "fst (generate_canonical (sconst 2147483648)) = 1 / 2 + 1 / 8589934592"
    by (simp add: generate_canonical_def)
  have e1: "evaluate_position_simple ?fen ?s = (Inr 0, ?t)"
    by (simp add: evaluate_position_simple_skill_0 [OF o] starting_position_material c1)
  have "fst (evaluate_position_simple ?fen ?t)
          = Inr (real_of_int 0 + (- 0.5 + (1 / 2 + 1 / 8589934592)) * 2)"
    by (simp only: evaluate_position_simple_skill_0 [OF ot] rt c2 starting_position_material
          fst_conv)
  then have e2: "fst (evaluate_position_simple ?fen ?t) = Inr (1 / 4294967296)"
    by simp
  have "fst (stockfish_evaluate_position ?fen ?s) = 0"
    by (simp add: evaluate_position_unfold ii e1)
  moreover have "snd (stockfish_evaluate_position ?fen ?s) = ?t"
    by (simp add: evaluate_position_unfold ii e1)
  moreover have "fst (stockfish_evaluate_position ?fen ?t) = 1 / 4294967296"
    by (simp add: evaluate_position_unfold iit e2)
  ultimately show ?thesis by simp
qed

subsection \<open>Setting options\<close>

text \<open>
  C3, as the code has it. \<open>stockfish_set_option\<close> checks neither the name nor the value.
  The call leaves the state as it was exactly when the engine is not initialised or the
  very value is already stored under the name; in every other case the pair is stored,
  over any value stored before.
\<close>

theorem set_option_noop_iff:
  "(stockfish_set_option name val s = s)
     = (\<not> engine_initialized s \<or> engine_options s name = Some val)"
proof (cases "engine_initialized s")
  case False
  then show ?thesis by (simp add: stockfish_set_option_def)
next
  case True
  have "(s\<lparr>engine_options := (engine_options s)(name \<mapsto> val)\<rparr> = s)
          = (engine_options s name = Some val)"
  proof
    assume "s\<lparr>engine_options := (engine_options s)(name \<mapsto> val)\<rparr> = s"
    then have "engine_options (s\<lparr>engine_options := (engine_options s)(name \<mapsto> val)\<rparr>) name
                 = engine_options s name"
      by simp
    then show "engine_options s name = Some val" by simp
  next
    assume "engine_options s name = Some val"
    then have "(engine_options s)(name \<mapsto> val) = engine_options s"
      by (simp add: map_upd_triv)
    then show "s\<lparr>engine_options := (engine_options s)(name \<mapsto> val)\<rparr> = s" by simp
  qed
  with True show ?thesis by (simp add: stockfish_set_option_def)
qed

text \<open>The statement of C3 on an initialised engine and a thread count of 0.\<close>

theorem set_option_noop_iff_witness:
  "stockfish_set_option ''Threads'' ''0'' (stockfish_init (engine_at_start (sconst 0)))
     \<noteq> stockfish_init (engine_at_start (sconst 0))"
  using set_option_noop_iff
          [of "''Threads''" "''0''" "stockfish_init (engine_at_start (sconst 0))"]
  by (simp add: stockfish_init_def engine_at_start_def)

text \<open>
  C3 as it is worded fails. On an initialised engine, \<^verbatim>\<open>Threads\<close> set to \<^verbatim>\<open>0\<close> (below the
  range from 1) replaces the stored \<^verbatim>\<open>1\<close>, and the name \<^verbatim>\<open>Bogus\<close>, which is no option,
  is stored with its value.
\<close>

theorem set_option_unchecked_counterexample:
  "engine_options (stockfish_init (engine_at_start (sconst 0))) ''Threads'' = Some ''1'' \<and>
   engine_options (stockfish_set_option ''Threads'' ''0''
                     (stockfish_init (engine_at_start (sconst 0)))) ''Threads'' = Some ''0'' \<and>
   engine_options (stockfish_init (engine_at_start (sconst 0))) ''Bogus'' = None \<and>
   engine_options (stockfish_set_option ''Bogus'' ''x''
                     (stockfish_init (engine_at_start (sconst 0)))) ''Bogus'' = Some ''x''"
  by (simp add: stockfish_set_option_def stockfish_init_def engine_at_start_def)

subsection \<open>The generated moves\<close>

text \<open>
  C4, as the code has it. For the starting position the generator returns its five
  sample moves \<^verbatim>\<open>e2e4\<close>, \<^verbatim>\<open>d2d4\<close>, \<^verbatim>\<open>g1f3\<close>, \<^verbatim>\<open>b1c3\<close>, \<^verbatim>\<open>f1c4\<close>, in this order, and
  nothing else.
\<close>

theorem starting_position_five_moves:
  "generate_legal_moves ''rnbqkbnr/pppppppp/8/8/8/8/PPPPPPPP/RNBQKBNR w KQkq - 0 1''
     = [''e2e4'', ''d2d4'', ''g1f3'', ''b1c3'', ''f1c4''] \<and>
   length (generate_legal_moves ''rnbqkbnr/pppppppp/8/8/8/8/PPPPPPPP/RNBQKBNR w KQkq - 0 1'')
     = 5"
  by (simp add: generate_legal_moves_def)

text \<open>C4 as it is worded fails: the list for the starting position has not 20 moves.\<close>

theorem starting_position_counterexample:
  "length (generate_legal_moves ''rnbqkbnr/pppppppp/8/8/8/8/PPPPPPPP/RNBQKBNR w KQkq - 0 1'')
     \<noteq> 20"
  by (simp add: generate_legal_moves_def)

subsection \<open>Evaluation and material\<close>

text \<open>
  C5, as the code has it. When the skill level the call reads is 20 or more, as with the
  defaults, the score of \<open>stockfish_evaluate_position\<close> is the material difference of the
  board field of the FEN string: White's material minus Black's, with the weights pawn 1,
  knight 3, bishop 3, rook 5, queen 9, king 0.
\<close>

theorem evaluation_is_material_at_full_skill:
  assumes "stored_skill_level s = Inr n" and "20 \<le> n"
  shows "fst (stockfish_evaluate_position fen s)
           = real_of_int (material_difference (board_field fen))"
  using assms
  by (simp add: evaluate_position_unfold stored_skill_level_init
        evaluate_position_simple_no_noise)

text \<open>
  The statement of C5 on the engine as it starts and a position where Black is a rook
  up: the score is \<open>- 5\<close>.
\<close>

theorem evaluation_is_material_at_full_skill_witness:
  "stored_skill_level (engine_at_start (sconst 0)) = Inr 20 \<and>
   fst (stockfish_evaluate_position ''4k3/8/8/8/8/8/4r3/4K3 w - - 0 1''
          (engine_at_start (sconst 0))) = - 5"
proof -
  have m: "material_difference (board_field ''4k3/8/8/8/8/8/4r3/4K3 w - - 0 1'') = - 5"
    by (simp add: material_difference_def material_def board_field_def letter_weight_def
          piece_of_letter_def)
  have h: "stored_skill_level (engine_at_start (sconst 0)) = Inr 20"
    by (rule stored_skill_level_at_start)
  show ?thesis
    using evaluation_is_material_at_full_skill
            [OF h, of "''4k3/8/8/8/8/8/4r3/4K3 w - - 0 1''"] h m
    by simp
qed

text \<open>
  C5 as it is worded fails. With the skill level set to 0 and the generator's next
  outputs all \<open>0\<close>, the score of the starting position is \<open>- 1\<close>, while its material
  difference is \<open>0\<close>.
\<close>

theorem evaluation_not_material_counterexample:
  "fst (stockfish_evaluate_position ''rnbqkbnr/pppppppp/8/8/8/8/PPPPPPPP/RNBQKBNR w KQkq - 0 1''
          (stockfish_set_option ''Skill Level'' ''0''
             (stockfish_init (engine_at_start (sconst 0))))) = - 1 \<and>
   material_difference
     (board_field ''rnbqkbnr/pppppppp/8/8/8/8/PPPPPPPP/RNBQKBNR w KQkq - 0 1'') = 0"
proof -
  let ?fen = "''rnbqkbnr/pppppppp/8/8/8/8/PPPPPPPP/RNBQKBNR w KQkq - 0 1''"
  let ?s = "stockfish_set_option ''Skill Level'' ''0''
              (stockfish_init (engine_at_start (sconst 0)))"
  have i: "engine_initialized ?s" and o: "engine_options ?s ''Skill Level'' = Some ''0''"
    and r: "rng ?s = sconst 0"
    by (simp_all add: stockfish_set_option_def stockfish_init_def engine_at_start_def)
  have ii: "stockfish_init ?s = ?s" using i by (simp add: stockfish_init_def)
  have c: "fst (generate_canonical (rng ?s)) = 0"
    by (simp add: generate_canonical_def r)
  have "fst (evaluate_position_simple ?fen ?s) = Inr (- 1)"
    by (simp add: evaluate_position_simple_skill_0 [OF o] starting_position_material c)
  then have "fst (stockfish_evaluate_position ?fen ?s) = - 1"
    by (simp add: evaluate_position_unfold ii)
  then show ?thesis by (simp add: starting_position_material)
qed

subsection \<open>The generated moves and the king\<close>

text \<open>
  C6, as the code has it. The generator returns the same five strings for every position
  and tests none of them. For every position and every generated string that is a move
  of it, the move does not leave the mover's king in check provided the king is not
  attacked once the origin square of the move is empty, that is, provided the side to
  move is not in check and the piece that moves is not pinned to its king.
\<close>

theorem generated_move_keeps_unexposed_king_safe:
  assumes m: "m \<in> set (generate_legal_moves fen)"
    and mv: "leaves_own_king_in_check fen m \<noteq> None"
    and ex: "king_exposed_without_origin fen m = Some False"
  shows "leaves_own_king_in_check fen m = Some False \<and>
         generate_legal_moves fen' = generate_legal_moves fen"
proof
  from generated_move_shape [OF m] obtain a b
    where pm: "parse_move m = Some (a, b, None)"
      and s1: "max \<bar>fst b - fst a\<bar> \<bar>snd b - snd a\<bar> \<noteq> 1"
      and s2: "\<not> (\<bar>fst b - fst a\<bar> = 2 \<and> snd b = snd a)"
    by blast
  from mv obtain pos pos' where pf: "parse_fen fen = Some pos"
    and am: "apply_move pos m = Some pos'"
    by (auto simp: leaves_own_king_in_check_def split: option.splits)
  from am pm obtain ps where np: "new_placement pos a b None = Some ps"
    and pp: "placement pos' = ps"
    by (auto simp: apply_move_def Let_def split: option.splits)
  from new_placement_relocates [OF np s1 s2] pp obtain kind
    where k: "kind \<noteq> King"
      and pl: "placement pos' = relocate (placement pos) a b (side_to_move pos, kind)"
    by blast
  from ex pf pm have safe: "\<not> is_in_check (vacate pos a) (side_to_move pos)"
    by (simp add: king_exposed_without_origin_def)
  have "\<not> is_in_check pos' (side_to_move pos)"
    using relocate_no_new_check [OF k pl] safe by blast
  with pf am show "leaves_own_king_in_check fen m = Some False"
    by (simp add: leaves_own_king_in_check_def)
next
  show "generate_legal_moves fen' = generate_legal_moves fen"
    by (simp add: generate_legal_moves_def)
qed

text \<open>
  The statement of C6 on the starting position and the move \<^verbatim>\<open>e2e4\<close>, which is a move
  of it and whose pawn shields nothing.
\<close>

theorem generated_move_keeps_unexposed_king_safe_witness:
  "''e2e4'' \<in> set (generate_legal_moves
                    ''rnbqkbnr/pppppppp/8/8/8/8/PPPPPPPP/RNBQKBNR w KQkq - 0 1'') \<and>
   king_exposed_without_origin
     ''rnbqkbnr/pppppppp/8/8/8/8/PPPPPPPP/RNBQKBNR w KQkq - 0 1'' ''e2e4'' = Some False \<and>
   leaves_own_king_in_check
     ''rnbqkbnr/pppppppp/8/8/8/8/PPPPPPPP/RNBQKBNR w KQkq - 0 1'' ''e2e4'' = Some False"
proof -
  have m: "''e2e4'' \<in> set (generate_legal_moves
             ''rnbqkbnr/pppppppp/8/8/8/8/PPPPPPPP/RNBQKBNR w KQkq - 0 1'')"
    by (simp add: generate_legal_moves_def)
  have ex: "king_exposed_without_origin
              ''rnbqkbnr/pppppppp/8/8/8/8/PPPPPPPP/RNBQKBNR w KQkq - 0 1'' ''e2e4''
              = Some False"
    by code_simp
  have mv: "leaves_own_king_in_check
              ''rnbqkbnr/pppppppp/8/8/8/8/PPPPPPPP/RNBQKBNR w KQkq - 0 1'' ''e2e4''
              \<noteq> None"
    by code_simp
  show ?thesis
    using generated_move_keeps_unexposed_king_safe [OF m mv ex] m ex by simp
qed

text \<open>
  C6 as it is worded fails. In the position after 1. f3 e5 2. g4 Qh4 the black queen on
  \<^verbatim>\<open>h4\<close> gives check to the white king on \<^verbatim>\<open>e1\<close>. The generator returns \<^verbatim>\<open>e2e4\<close> for this
  position, the pawn push is a move of it, and it leaves the white king in check. In the
  second position the white king on \<^verbatim>\<open>f1\<close> is not in check and the knight on \<^verbatim>\<open>g1\<close> is
  pinned by the rook on \<^verbatim>\<open>h1\<close>: the generated \<^verbatim>\<open>g1f3\<close> is a move of the knight, and it
  leaves the king in check.
\<close>

theorem king_left_in_check_counterexample:
  "''e2e4'' \<in> set (generate_legal_moves
                    ''rnb1kbnr/pppp1ppp/8/4p3/6Pq/5P2/PPPPP2P/RNBQKBNR w KQkq - 1 3'') \<and>
   leaves_own_king_in_check
     ''rnb1kbnr/pppp1ppp/8/4p3/6Pq/5P2/PPPPP2P/RNBQKBNR w KQkq - 1 3'' ''e2e4'' = Some True \<and>
   ''g1f3'' \<in> set (generate_legal_moves ''4k3/8/8/8/8/8/8/5KNr w - - 0 1'') \<and>
   leaves_own_king_in_check ''4k3/8/8/8/8/8/8/5KNr w - - 0 1'' ''g1f3'' = Some True"
proof (intro conjI)
  show "''e2e4'' \<in> set (generate_legal_moves
                    ''rnb1kbnr/pppp1ppp/8/4p3/6Pq/5P2/PPPPP2P/RNBQKBNR w KQkq - 1 3'')"
    by (simp add: generate_legal_moves_def)
  show "leaves_own_king_in_check
     ''rnb1kbnr/pppp1ppp/8/4p3/6Pq/5P2/PPPPP2P/RNBQKBNR w KQkq - 1 3'' ''e2e4'' = Some True"
    by code_simp
  show "''g1f3'' \<in> set (generate_legal_moves ''4k3/8/8/8/8/8/8/5KNr w - - 0 1'')"
    by (simp add: generate_legal_moves_def)
  show "leaves_own_king_in_check ''4k3/8/8/8/8/8/8/5KNr w - - 0 1'' ''g1f3'' = Some True"
    by code_simp
qed

subsection \<open>Initialisation\<close>

text \<open>
  C7. Initialisation is idempotent: from any state, running \<open>stockfish_init\<close> twice
  leaves the flag, the option map and the generator as running it once does.
\<close>

theorem stockfish_init_idempotent:
  "stockfish_init (stockfish_init s) = stockfish_init s"
  by (simp add: stockfish_init_def)

subsection \<open>The move returned\<close>

text \<open>
  C8. When the skill level the call reads is an integer, the move that
  \<open>stockfish_get_best_move\<close> returns is one of the five strings \<^verbatim>\<open>e2e4\<close>, \<^verbatim>\<open>d2d4\<close>,
  \<^verbatim>\<open>g1f3\<close>, \<^verbatim>\<open>b1c3\<close>, \<^verbatim>\<open>f1c4\<close>; and the FEN string, the depth and the time have no
  part in the result.
\<close>

theorem best_move_among_five:
  assumes "stored_skill_level s = Inr n"
  shows "fst (stockfish_get_best_move fen depth time s)
           \<in> set [''e2e4'', ''d2d4'', ''g1f3'', ''b1c3'', ''f1c4''] \<and>
         stockfish_get_best_move fen' depth' time' s
           = stockfish_get_best_move fen depth time s"
proof
  let ?r = "select_best_move (generate_legal_moves fen) fen (stockfish_init s)"
  have "\<not> isl (fst ?r)"
    using assms
      select_best_move_error [OF generate_legal_moves_nonempty, of fen fen "stockfish_init s"]
    by (simp add: stored_skill_level_init)
  then obtain m where m: "fst ?r = Inr m" by (cases "fst ?r") auto
  then have "m \<in> set (generate_legal_moves fen)"
    using select_best_move_member [OF generate_legal_moves_nonempty] by blast
  moreover have "fst (stockfish_get_best_move fen depth time s) = m"
    using m by (simp add: get_best_move_unfold)
  ultimately show "fst (stockfish_get_best_move fen depth time s)
                     \<in> set [''e2e4'', ''d2d4'', ''g1f3'', ''b1c3'', ''f1c4'']"
    by (simp add: generate_legal_moves_def)
next
  show "stockfish_get_best_move fen' depth' time' s
          = stockfish_get_best_move fen depth time s"
    by (simp add: get_best_move_unfold generate_legal_moves_def
          select_best_move_fen [of _ fen' _ fen])
qed

text \<open>
  The statement of C8 at skill level 3, where the move is drawn at random: two calls
  from the same state, on two positions with two depths and times.
\<close>

theorem best_move_among_five_witness:
  "stored_skill_level (stockfish_set_option ''Skill Level'' ''3''
                         (stockfish_init (engine_at_start (sconst 7)))) = Inr 3 \<and>
   fst (stockfish_get_best_move ''4k3/8/8/8/8/8/4r3/4K3 w - - 0 1'' 12 2
          (stockfish_set_option ''Skill Level'' ''3''
             (stockfish_init (engine_at_start (sconst 7)))))
     \<in> set [''e2e4'', ''d2d4'', ''g1f3'', ''b1c3'', ''f1c4''] \<and>
   stockfish_get_best_move ''rnbqkbnr/pppppppp/8/8/8/8/PPPPPPPP/RNBQKBNR w KQkq - 0 1'' 5 1
     (stockfish_set_option ''Skill Level'' ''3'' (stockfish_init (engine_at_start (sconst 7))))
     = stockfish_get_best_move ''4k3/8/8/8/8/8/4r3/4K3 w - - 0 1'' 12 2
         (stockfish_set_option ''Skill Level'' ''3''
            (stockfish_init (engine_at_start (sconst 7))))"
proof -
  let ?s = "stockfish_set_option ''Skill Level'' ''3''
              (stockfish_init (engine_at_start (sconst 7)))"
  have h: "stored_skill_level ?s = Inr 3"
    by (simp add: stored_skill_level_def stockfish_set_option_def stockfish_init_def
          engine_at_start_def map_index_def stoi_3)
  show ?thesis
    using best_move_among_five
            [OF h, of "''4k3/8/8/8/8/8/4r3/4K3 w - - 0 1''" 12 2
               "''rnbqkbnr/pppppppp/8/8/8/8/PPPPPPPP/RNBQKBNR w KQkq - 0 1''" 5 1] h
    by simp
qed

subsection \<open>Options before and after initialisation\<close>

text \<open>
  C9. Before the engine is initialised, \<open>stockfish_set_option\<close> leaves the whole state
  as it was: the option is dropped. Once the engine is initialised it stores the value
  under the name, whatever the two are, and changes nothing else: not the other
  options, not the flag, not the generator.
\<close>

theorem set_option_before_and_after_init:
  "(\<not> engine_initialized s \<longrightarrow> stockfish_set_option name val s = s) \<and>
   (engine_initialized s \<longrightarrow>
      engine_options (stockfish_set_option name val s) name = Some val \<and>
      (\<forall>k. k \<noteq> name \<longrightarrow>
         engine_options (stockfish_set_option name val s) k = engine_options s k) \<and>
      engine_initialized (stockfish_set_option name val s) \<and>
      rng (stockfish_set_option name val s) = rng s)"
  by (simp add: stockfish_set_option_def)

text \<open>
  The statement of C9 on the engine as it starts, and on the same engine after
  \<open>stockfish_init\<close>.
\<close>

theorem set_option_before_and_after_init_witness:
  "stockfish_set_option ''Threads'' ''4'' (engine_at_start (sconst 0))
     = engine_at_start (sconst 0) \<and>
   engine_options (stockfish_set_option ''Bogus'' ''x''
                     (stockfish_init (engine_at_start (sconst 0)))) ''Bogus'' = Some ''x'' \<and>
   engine_options (stockfish_set_option ''Bogus'' ''x''
                     (stockfish_init (engine_at_start (sconst 0)))) ''Threads'' = Some ''1''"
  using set_option_before_and_after_init
          [of "engine_at_start (sconst 0)" "''Threads''" "''4''"]
        set_option_before_and_after_init
          [of "stockfish_init (engine_at_start (sconst 0))" "''Bogus''" "''x''"]
  by (simp add: engine_at_start_def stockfish_init_def)

subsection \<open>Initialisation on demand\<close>

text \<open>
  C10. After \<open>stockfish_get_best_move\<close> and after \<open>stockfish_evaluate_position\<close> the
  engine is initialised. When it was not before, the state the call leaves is the one
  \<open>stockfish_init\<close> makes, with the defaults \<^verbatim>\<open>Skill Level\<close> 20, \<^verbatim>\<open>Threads\<close> 1 and
  \<^verbatim>\<open>Hash\<close> 128, and the call does not fail: neither the selection nor the evaluation
  throws, and the move returned is \<^verbatim>\<open>e2e4\<close>.
\<close>

theorem operations_initialise_on_demand:
  "engine_initialized (snd (stockfish_get_best_move fen depth time s)) \<and>
   engine_initialized (snd (stockfish_evaluate_position fen s)) \<and>
   (\<not> engine_initialized s \<longrightarrow>
      snd (stockfish_get_best_move fen depth time s) = stockfish_init s \<and>
      snd (stockfish_evaluate_position fen s) = stockfish_init s \<and>
      engine_options (stockfish_init s) ''Skill Level'' = Some ''20'' \<and>
      engine_options (stockfish_init s) ''Threads'' = Some ''1'' \<and>
      engine_options (stockfish_init s) ''Hash'' = Some ''128'' \<and>
      \<not> isl (fst (select_best_move (generate_legal_moves fen) fen (stockfish_init s))) \<and>
      \<not> isl (fst (evaluate_position_simple fen (stockfish_init s))) \<and>
      fst (stockfish_get_best_move fen depth time s) = ''e2e4'')"
proof (intro conjI impI)
  have "engine_initialized
          (snd (select_best_move (generate_legal_moves fen) fen (stockfish_init s)))"
    by (simp add: select_best_move_initialized initialized_init)
  then show "engine_initialized (snd (stockfish_get_best_move fen depth time s))"
    by (simp add: get_best_move_unfold)
next
  have "engine_initialized (snd (evaluate_position_simple fen (stockfish_init s)))"
    by (simp add: evaluate_position_simple_initialized initialized_init)
  then show "engine_initialized (snd (stockfish_evaluate_position fen s))"
    by (simp add: evaluate_position_unfold)
next
  assume u: "\<not> engine_initialized s"
  then have opts: "engine_options (stockfish_init s) ''Skill Level'' = Some ''20''"
    by (simp add: stockfish_init_def)
  show "engine_options (stockfish_init s) ''Skill Level'' = Some ''20''" by (rule opts)
  show "engine_options (stockfish_init s) ''Threads'' = Some ''1''"
    using u by (simp add: stockfish_init_def)
  show "engine_options (stockfish_init s) ''Hash'' = Some ''128''"
    using u by (simp add: stockfish_init_def)
  have sel: "select_best_move (generate_legal_moves fen) fen (stockfish_init s)
               = (Inr ''e2e4'', stockfish_init s)"
    using opts by (simp add: select_best_move_def generate_legal_moves_def map_index_def stoi_20)
  have ev: "evaluate_position_simple fen (stockfish_init s)
              = (Inr (foldl material_step 0 (substr0 fen (str_find '' '' fen))),
                 stockfish_init s)"
    using opts by (simp add: evaluate_position_simple_def map_index_def stoi_20)
  show "\<not> isl (fst (select_best_move (generate_legal_moves fen) fen (stockfish_init s)))"
    by (simp add: sel)
  show "\<not> isl (fst (evaluate_position_simple fen (stockfish_init s)))"
    by (simp add: ev)
  show "snd (stockfish_get_best_move fen depth time s) = stockfish_init s"
    by (simp add: get_best_move_unfold sel)
  show "fst (stockfish_get_best_move fen depth time s) = ''e2e4''"
    by (simp add: get_best_move_unfold sel)
  show "snd (stockfish_evaluate_position fen s) = stockfish_init s"
    by (simp add: evaluate_position_unfold ev)
qed

text \<open>The statement of C10 on the engine as it starts.\<close>

theorem operations_initialise_on_demand_witness:
  "\<not> engine_initialized (engine_at_start (sconst 0)) \<and>
   engine_initialized
     (snd (stockfish_get_best_move ''4k3/8/8/8/8/8/4r3/4K3 w - - 0 1'' 12 2
             (engine_at_start (sconst 0)))) \<and>
   engine_initialized
     (snd (stockfish_evaluate_position ''4k3/8/8/8/8/8/4r3/4K3 w - - 0 1''
             (engine_at_start (sconst 0)))) \<and>
   engine_options
     (snd (stockfish_evaluate_position ''4k3/8/8/8/8/8/4r3/4K3 w - - 0 1''
             (engine_at_start (sconst 0)))) ''Hash'' = Some ''128'' \<and>
   fst (stockfish_get_best_move ''4k3/8/8/8/8/8/4r3/4K3 w - - 0 1'' 12 2
          (engine_at_start (sconst 0))) = ''e2e4''"
proof -
  have u: "\<not> engine_initialized (engine_at_start (sconst 0))"
    by (simp add: engine_at_start_def)
  show ?thesis
    using operations_initialise_on_demand
            [of "''4k3/8/8/8/8/8/4r3/4K3 w - - 0 1''" 12 2 "engine_at_start (sconst 0)"] u
    by (simp add: initialized_init)
qed

end
